theory Spec2Isabelle
  imports Main
begin

section \<open>The environment: network and Document Store\<close>

text \<open>
  The ingestion package talks to two things outside itself: the HTTP server of the portal
  and the download directory. Both are explicit here. A request is a GET of a URL or the
  search POST, of which only the token and the page number vary. The server is a function
  of the requests already sent and of the present one, so that it may answer the same
  request differently at different times. The world is the download directory (a flat
  map from file name to content) and the list of requests sent so far, oldest first.
  A file name is a key of that map; a name with a slash in it would be a path that leaves
  the directory, and what the file system does with it is not described here. Faults of
  the disk are not described either: a file that does not name a directory can be written.
\<close>

type_synonym url = string
type_synonym bytes = string

datatype request = GET url | POST url string nat

text \<open>
  Exceptions that are not \<^verbatim>\<open>requests.RequestException\<close>. A RequestException never
  leaves the function that provoked it in this code, so it needs no value of its own.
\<close>

datatype py_error = ValueError | KeyError | AttributeError | OSError

text \<open>
  What BeautifulSoup is asked about a page. An anchor carries its \<^verbatim>\<open>href\<close> attribute
  if it has one; a cell its first anchor (\<^verbatim>\<open>cell.a\<close>); a row its first cell
  (\<^verbatim>\<open>row.find('td')\<close>); an input its \<^verbatim>\<open>value\<close> attribute.
\<close>

datatype anchor = Anchor "string option"
datatype td = Td "anchor option"
datatype tr = Tr "td option"
datatype input_tag = Input "string option"

record html =
  p_auth_input :: "input_tag option"
  results_table :: "tr list option"
  elabel_link :: "anchor option"

text \<open>
  A response: its status, its markup, the \<^verbatim>\<open>content-length\<close> header (\<open>None\<close>: no such
  header; \<open>Some None\<close>: a header that \<^verbatim>\<open>int()\<close> rejects; \<open>Some (Some n)\<close>: one it reads
  as \<open>n\<close>), the chunks that \<^verbatim>\<open>iter_content\<close> yields, and whether the stream then breaks
  with a RequestException instead of ending.
\<close>

record response =
  status_code :: nat
  page :: html
  content_length :: "int option option"
  chunks :: "bytes list"
  stream_fault :: bool

datatype http_result = RequestError | Response response

type_synonym server = "request list \<Rightarrow> request \<Rightarrow> http_result"

record world =
  files :: "string \<rightharpoonup> bytes"
  sent :: "request list"

text \<open>
  \<^verbatim>\<open>os.path.exists(os.path.join(DOWNLOAD_DIR, filename))\<close>. The directory itself
  exists once \<^verbatim>\<open>ensure_dir\<close> has run, and the empty name and the two dot names join to
  it or to its parent.
\<close>

definition names_directory :: "string \<Rightarrow> bool" where
  "names_directory filename = (filename \<in> set [[], ''.'', ''..''])"

definition path_exists :: "world \<Rightarrow> string \<Rightarrow> bool" where
  "path_exists w filename = (names_directory filename \<or> files w filename \<noteq> None)"

text \<open>
  A call of \<^verbatim>\<open>requests.get\<close> or \<^verbatim>\<open>session.post\<close>: the call is recorded and the server
  answers. \<open>RequestError\<close> stands for every RequestException the call itself raises.
\<close>

definition http :: "server \<Rightarrow> request \<Rightarrow> world \<Rightarrow> http_result \<times> world" where
  "http srv rq w = (srv (sent w) rq, w\<lparr>sent := sent w @ [rq]\<rparr>)"

text \<open>\<^verbatim>\<open>response.raise_for_status()\<close> raises HTTPError for a 4xx or 5xx status.\<close>

definition raise_for_status :: "nat \<Rightarrow> bool" where
  "raise_for_status s = (400 \<le> s \<and> s < 600)"

text \<open>
  The body of the \<^verbatim>\<open>with open(filepath, 'wb')\<close> block of both \<^verbatim>\<open>download_pdf\<close>
  functions: the file is created or emptied under its final name, every chunk received is
  appended, and the block is left normally exactly when the stream did not break.
\<close>

definition write_stream :: "string \<Rightarrow> response \<Rightarrow> world \<Rightarrow> bool \<times> world" where
  "write_stream filename r w =
     (\<not> stream_fault r, w\<lparr>files := (files w)(filename \<mapsto> concat (chunks r))\<rparr>)"

section \<open>csv\_scraper.py\<close>

definition CSV_BASE_URL :: string where
  "CSV_BASE_URL = ''https://elabels.apvma.gov.au/''"

text \<open>
  \<^verbatim>\<open>download_pdf\<close> of csv\_scraper.py. Its handler is \<^verbatim>\<open>except Exception\<close>, so every
  failure, the rejected \<^verbatim>\<open>content-length\<close> included, ends in \<open>False\<close>.
\<close>

definition csv_download_pdf :: "server \<Rightarrow> url \<Rightarrow> string \<Rightarrow> world \<Rightarrow> bool \<times> world" where
  "csv_download_pdf srv pdf_url filename w =
     (if path_exists w filename then (True, w)
      else (case http srv (GET pdf_url) w of
              (RequestError, w1) \<Rightarrow> (False, w1)
            | (Response r, w1) \<Rightarrow>
                if status_code r = 404 then (False, w1)
                else if raise_for_status (status_code r) then (False, w1)
                else (case content_length r of
                        Some None \<Rightarrow> (False, w1)
                      | _ \<Rightarrow> write_stream filename r w1)))"

text \<open>
  A row of \<^verbatim>\<open>csv.DictReader\<close>: a dictionary from field names to values, where a row
  shorter than the header has the value \<^verbatim>\<open>None\<close> for its missing fields.
\<close>

type_synonym csv_row = "string \<rightharpoonup> string option"

record product =
  no :: string
  actives :: string
  name :: "string option"

text \<open>
  \<^verbatim>\<open>str.strip()\<close> removes white space at both ends. Characters are bytes here, so
  the white space is that of ASCII.
\<close>

definition py_isspace :: "char \<Rightarrow> bool" where
  "py_isspace c = (c \<in> set [CHR 0x09, CHR 0x0A, CHR 0x0B, CHR 0x0C, CHR 0x0D,
                             CHR 0x1C, CHR 0x1D, CHR 0x1E, CHR 0x1F, CHR '' ''])"

definition strip :: "string \<Rightarrow> string" where
  "strip s = rev (dropWhile py_isspace (rev (dropWhile py_isspace s)))"

text \<open>\<^verbatim>\<open>row.get(key, '').strip()\<close>: a value \<^verbatim>\<open>None\<close> has no \<^verbatim>\<open>strip\<close>.\<close>

definition get_strip :: "csv_row \<Rightarrow> string \<Rightarrow> py_error + string" where
  "get_strip row key =
     (case row key of
        None \<Rightarrow> Inr (strip [])
      | Some None \<Rightarrow> Inl AttributeError
      | Some (Some v) \<Rightarrow> Inr (strip v))"

definition get_name :: "csv_row \<Rightarrow> string option" where
  "get_name row = (case row ''Name'' of None \<Rightarrow> Some ''Unknown'' | Some v \<Rightarrow> v)"

text \<open>The reading loop of \<^verbatim>\<open>process_csv\<close>, with its two accumulators.\<close>

fun select_rows :: "csv_row list \<Rightarrow> string set \<Rightarrow> product list \<Rightarrow> py_error + product list" where
  "select_rows [] unique_actives products_to_download = Inr products_to_download"
| "select_rows (row # rows) unique_actives products_to_download =
     (case get_strip row ''Actives'' of
        Inl e \<Rightarrow> Inl e
      | Inr a \<Rightarrow>
          (case get_strip row ''No'' of
             Inl e \<Rightarrow> Inl e
           | Inr product_no \<Rightarrow>
               if a = [] \<or> product_no = [] then
                 select_rows rows unique_actives products_to_download
               else if a \<notin> unique_actives then
                 select_rows rows (insert a unique_actives)
                   (products_to_download @ [\<lparr>no = product_no, actives = a, name = get_name row\<rparr>])
               else select_rows rows unique_actives products_to_download))"

definition csv_filename :: "product \<Rightarrow> string" where
  "csv_filename p = no p @ ''ELBL.pdf''"

definition csv_url :: "product \<Rightarrow> url" where
  "csv_url p = CSV_BASE_URL @ csv_filename p"

text \<open>The download loop of \<^verbatim>\<open>process_csv\<close> with its two counters.\<close>

fun download_all :: "server \<Rightarrow> product list \<Rightarrow> nat \<Rightarrow> nat \<Rightarrow> world \<Rightarrow> (nat \<times> nat) \<times> world" where
  "download_all srv [] success_count fail_count w = ((success_count, fail_count), w)"
| "download_all srv (p # ps) success_count fail_count w =
     (case csv_download_pdf srv (csv_url p) (csv_filename p) w of
        (True, w1) \<Rightarrow> download_all srv ps (success_count + 1) fail_count w1
      | (False, w1) \<Rightarrow> download_all srv ps success_count (fail_count + 1) w1)"

text \<open>
  \<^verbatim>\<open>process_csv\<close>: the rows are what the reader yields for the CSV file. The result
  holds the three numbers the function prints: the number of selected products, the
  successes, and the single count of "Failed/Not Found".
\<close>

record csv_summary =
  found_unique :: nat
  successfully_downloaded :: nat
  failed_not_found :: nat

definition process_csv :: "server \<Rightarrow> csv_row list \<Rightarrow> world \<Rightarrow> (py_error + csv_summary) \<times> world" where
  "process_csv srv rows w =
     (case select_rows rows {} [] of
        Inl e \<Rightarrow> (Inl e, w)
      | Inr products_to_download \<Rightarrow>
          (case download_all srv products_to_download 0 0 w of
             ((s, f), w1) \<Rightarrow>
               (Inr \<lparr>found_unique = length products_to_download,
                     successfully_downloaded = s, failed_not_found = f\<rparr>, w1)))"

section \<open>Library functions on URLs and paths\<close>

text \<open>
  scraper.py builds the DownloadTarget with \<^verbatim>\<open>urljoin\<close> and \<^verbatim>\<open>urlparse\<close> of
  \<^verbatim>\<open>urllib.parse\<close> and with \<^verbatim>\<open>os.path.basename\<close>. They are written out here after the
  library (CPython 3.11), on byte strings. The library's checks of the host part
  (bracketed IPv6 literals, characters that normalise to delimiters), which reject some
  malformed hosts with a ValueError, are left out: hosts are taken as they come.
\<close>

definition ascii_upper :: "char \<Rightarrow> bool" where
  "ascii_upper c = (c \<in> set ''ABCDEFGHIJKLMNOPQRSTUVWXYZ'')"

definition ascii_lower :: "char \<Rightarrow> bool" where
  "ascii_lower c = (c \<in> set ''abcdefghijklmnopqrstuvwxyz'')"

definition scheme_char :: "char \<Rightarrow> bool" where
  "scheme_char c = (ascii_lower c \<or> ascii_upper c \<or> c \<in> set ''0123456789+-.'')"

definition lower_char :: "char \<Rightarrow> char" where
  "lower_char c = (if ascii_upper c then char_of (of_char c + (32::nat)) else c)"

definition starts_with :: "string \<Rightarrow> string \<Rightarrow> bool" where
  "starts_with p s = (take (length p) s = p)"

text \<open>\<^verbatim>\<open>s.split(c)\<close> and \<^verbatim>\<open>c.join(parts)\<close> for a single character.\<close>

fun split_on :: "char \<Rightarrow> string \<Rightarrow> string list" where
  "split_on c [] = [[]]"
| "split_on c (x # xs) =
     (if x = c then [] # split_on c xs
      else (case split_on c xs of [] \<Rightarrow> [[x]] | s # ss \<Rightarrow> (x # s) # ss))"

fun join_with :: "char \<Rightarrow> string list \<Rightarrow> string" where
  "join_with c [] = []"
| "join_with c [s] = s"
| "join_with c (s # t # ss) = s @ c # join_with c (t # ss)"

text \<open>\<^verbatim>\<open>s.split(c, 1)\<close> when \<open>c\<close> occurs in \<open>s\<close>: the text before and after its first occurrence.\<close>

definition before :: "char \<Rightarrow> string \<Rightarrow> string" where
  "before c s = takeWhile (\<lambda>x. x \<noteq> c) s"

definition after :: "char \<Rightarrow> string \<Rightarrow> string" where
  "after c s = drop 1 (dropWhile (\<lambda>x. x \<noteq> c) s)"

record parsed_url =
  scheme :: string
  netloc :: string
  path :: string
  params :: string
  query :: string
  fragment :: string

definition uses_relative :: "string list" where
  "uses_relative = ['''', ''ftp'', ''http'', ''gopher'', ''nntp'', ''imap'', ''wais'', ''file'',
     ''https'', ''shttp'', ''mms'', ''prospero'', ''rtsp'', ''rtsps'', ''rtspu'', ''sftp'',
     ''svn'', ''svn+ssh'', ''ws'', ''wss'']"

definition uses_netloc :: "string list" where
  "uses_netloc = ['''', ''ftp'', ''http'', ''gopher'', ''nntp'', ''telnet'', ''imap'', ''wais'',
     ''file'', ''mms'', ''https'', ''shttp'', ''snews'', ''prospero'', ''rtsp'', ''rtsps'',
     ''rtspu'', ''rsync'', ''svn'', ''svn+ssh'', ''sftp'', ''nfs'', ''git'', ''git+ssh'',
     ''ws'', ''wss'']"

definition uses_params :: "string list" where
  "uses_params = ['''', ''ftp'', ''hdl'', ''prospero'', ''http'', ''imap'', ''https'', ''shttp'',
     ''rtsp'', ''rtsps'', ''rtspu'', ''sip'', ''sips'', ''mms'', ''sftp'', ''tel'']"

text \<open>
  \<^verbatim>\<open>_splitparams\<close>: the parameters are what follows the first semicolon of the last
  segment of the path.
\<close>

definition splitparams :: "string \<Rightarrow> string \<times> string" where
  "splitparams u =
     (if CHR ''/'' \<in> set u then
        (let seg = rev (takeWhile (\<lambda>x. x \<noteq> CHR ''/'') (rev u));
             dir = rev (dropWhile (\<lambda>x. x \<noteq> CHR ''/'') (rev u))
         in if CHR '';'' \<in> set seg then (dir @ before CHR '';'' seg, after CHR '';'' seg)
            else (u, []))
      else (before CHR '';'' u, after CHR '';'' u))"

text \<open>
  \<^verbatim>\<open>urlparse(url, scheme)\<close>, that is \<^verbatim>\<open>urlsplit\<close> followed by the split of the
  parameters. Leading control characters and spaces are dropped and tabs and line breaks
  removed; a scheme is a non-empty run of scheme characters that begins with a letter and
  ends at the first colon; a host part follows two slashes and ends at the first of
  \<^verbatim>\<open>/?#\<close>; then the fragment and the query are cut off.
\<close>

definition urlparse :: "string \<Rightarrow> string \<Rightarrow> parsed_url" where
  "urlparse url0 default_scheme =
     (let url1 = filter (\<lambda>c. c \<notin> set [CHR 0x09, CHR 0x0D, CHR 0x0A])
                   (dropWhile (\<lambda>c. (of_char c :: nat) \<le> 32) url0);
          pre = before CHR '':'' url1;
          has_scheme = (CHR '':'' \<in> set url1 \<and> pre \<noteq> []
                        \<and> (ascii_lower (hd pre) \<or> ascii_upper (hd pre))
                        \<and> list_all scheme_char pre);
          sch = (if has_scheme then map lower_char pre else default_scheme);
          url2 = (if has_scheme then after CHR '':'' url1 else url1);
          has_netloc = (take 2 url2 = ''//'');
          loc = (if has_netloc then takeWhile (\<lambda>c. c \<notin> set ''/?#'') (drop 2 url2) else []);
          url3 = (if has_netloc then dropWhile (\<lambda>c. c \<notin> set ''/?#'') (drop 2 url2) else url2);
          frag = (if CHR ''#'' \<in> set url3 then after CHR ''#'' url3 else []);
          url4 = (if CHR ''#'' \<in> set url3 then before CHR ''#'' url3 else url3);
          qry = (if CHR ''?'' \<in> set url4 then after CHR ''?'' url4 else []);
          url5 = (if CHR ''?'' \<in> set url4 then before CHR ''?'' url4 else url4);
          pp = (if sch \<in> set uses_params \<and> CHR '';'' \<in> set url5 then splitparams url5
                else (url5, []))
      in \<lparr>scheme = sch, netloc = loc, path = fst pp, params = snd pp,
          query = qry, fragment = frag\<rparr>)"

text \<open>\<^verbatim>\<open>urlunparse\<close>, with \<^verbatim>\<open>urlunsplit\<close> inside.\<close>

definition urlunparse :: "parsed_url \<Rightarrow> string" where
  "urlunparse u =
     (let url1 = (if params u \<noteq> [] then path u @ '';'' @ params u else path u);
          url2 = (if netloc u \<noteq> [] \<or> (scheme u \<noteq> [] \<and> scheme u \<in> set uses_netloc)
                     \<or> take 2 url1 = ''//''
                  then ''//'' @ netloc u
                       @ (if url1 \<noteq> [] \<and> take 1 url1 \<noteq> ''/'' then ''/'' @ url1 else url1)
                  else url1);
          url3 = (if scheme u \<noteq> [] then scheme u @ '':'' @ url2 else url2);
          url4 = (if query u \<noteq> [] then url3 @ ''?'' @ query u else url3)
      in if fragment u \<noteq> [] then url4 @ ''#'' @ fragment u else url4)"

text \<open>The loop of \<^verbatim>\<open>urljoin\<close> that removes the dot segments.\<close>

fun resolve_segments :: "string list \<Rightarrow> string list \<Rightarrow> string list" where
  "resolve_segments [] resolved_path = resolved_path"
| "resolve_segments (seg # segs) resolved_path =
     (if seg = ''..'' then resolve_segments segs (butlast resolved_path)
      else if seg = ''.'' then resolve_segments segs resolved_path
      else resolve_segments segs (resolved_path @ [seg]))"

text \<open>\<^verbatim>\<open>segments[1:-1] = filter(None, segments[1:-1])\<close>\<close>

definition filter_inner :: "string list \<Rightarrow> string list" where
  "filter_inner segments =
     (if length segments < 2 then segments
      else hd segments # filter (\<lambda>s. s \<noteq> []) (butlast (tl segments)) @ [last segments])"

definition urljoin :: "string \<Rightarrow> string \<Rightarrow> string" where
  "urljoin base url =
     (if base = [] then url
      else if url = [] then base
      else
        (let b = urlparse base [];
             u = urlparse url (scheme b)
         in if scheme u \<noteq> scheme b \<or> scheme u \<notin> set uses_relative then url
            else if scheme u \<in> set uses_netloc \<and> netloc u \<noteq> [] then urlunparse u
            else
              (let loc = (if scheme u \<in> set uses_netloc then netloc b else netloc u)
               in if path u = [] \<and> params u = [] then
                    urlunparse (u\<lparr>netloc := loc, path := path b, params := params b,
                                  query := (if query u = [] then query b else query u)\<rparr>)
                  else
                    (let base_parts0 = split_on CHR ''/'' (path b);
                         base_parts = (if last base_parts0 \<noteq> [] then butlast base_parts0
                                       else base_parts0);
                         segments = (if take 1 (path u) = ''/'' then split_on CHR ''/'' (path u)
                                     else filter_inner (base_parts @ split_on CHR ''/'' (path u)));
                         resolved0 = resolve_segments segments [];
                         resolved = (if last segments \<in> set [''.'', ''..''] then resolved0 @ [[]]
                                     else resolved0);
                         joined = join_with CHR ''/'' resolved
                     in urlunparse (u\<lparr>netloc := loc,
                                      path := (if joined = [] then ''/'' else joined)\<rparr>)))))"

text \<open>\<^verbatim>\<open>os.path.basename\<close>: what follows the last slash.\<close>

definition basename :: "string \<Rightarrow> string" where
  "basename p = rev (takeWhile (\<lambda>c. c \<noteq> CHR ''/'') (rev p))"

section \<open>scraper.py\<close>

definition BASE_URL :: string where
  "BASE_URL = ''https://portal.apvma.gov.au/''"

definition SEARCH_URL :: string where
  "SEARCH_URL = ''https://portal.apvma.gov.au/pubcris''"

definition MAX_PAGES :: "nat option" where
  "MAX_PAGES = Some 2"

text \<open>
  \<^verbatim>\<open>get_session_params\<close>. Only a RequestException is handled, by returning \<^verbatim>\<open>None\<close>;
  the ValueError raised for a page without the input, and the KeyError of an input without
  a \<^verbatim>\<open>value\<close> attribute, leave the function.
\<close>

definition get_session_params :: "server \<Rightarrow> url \<Rightarrow> world \<Rightarrow> (py_error + string option) \<times> world" where
  "get_session_params srv u w =
     (case http srv (GET u) w of
        (RequestError, w1) \<Rightarrow> (Inr None, w1)
      | (Response r, w1) \<Rightarrow>
          if raise_for_status (status_code r) then (Inr None, w1)
          else (case p_auth_input (page r) of
                  None \<Rightarrow> (Inl ValueError, w1)
                | Some (Input None) \<Rightarrow> (Inl KeyError, w1)
                | Some (Input (Some v)) \<Rightarrow> (Inr (Some v), w1)))"

text \<open>
  \<^verbatim>\<open>download_pdf\<close> of scraper.py. Its handler is \<^verbatim>\<open>except requests.RequestException\<close>:
  a \<^verbatim>\<open>content-length\<close> that \<^verbatim>\<open>int()\<close> rejects and a path that cannot be opened for
  writing are not handled. There is no check for an existing file and no case for 404.
\<close>

definition scraper_download_pdf :: "server \<Rightarrow> url \<Rightarrow> string \<Rightarrow> world \<Rightarrow> (py_error + bool) \<times> world" where
  "scraper_download_pdf srv pdf_url filename w =
     (case http srv (GET pdf_url) w of
        (RequestError, w1) \<Rightarrow> (Inr False, w1)
      | (Response r, w1) \<Rightarrow>
          if raise_for_status (status_code r) then (Inr False, w1)
          else (case content_length r of
                  Some None \<Rightarrow> (Inl ValueError, w1)
                | _ \<Rightarrow>
                    if names_directory filename then (Inl OSError, w1)
                    else (case write_stream filename r w1 of (ok, w2) \<Rightarrow> (Inr ok, w2))))"

text \<open>
  The link of a row of the results table: \<^verbatim>\<open>cell = row.find('td')\<close>, then
  \<^verbatim>\<open>cell.a['href']\<close> if there are a cell and an anchor in it.
\<close>

fun row_link :: "tr \<Rightarrow> py_error + string option" where
  "row_link (Tr None) = Inr None"
| "row_link (Tr (Some (Td None))) = Inr None"
| "row_link (Tr (Some (Td (Some (Anchor None))))) = Inl KeyError"
| "row_link (Tr (Some (Td (Some (Anchor (Some link)))))) = Inr (Some link)"

text \<open>
  The loop over the rows of one page. The set \<^verbatim>\<open>product_links_found\<close> is kept as the
  list of its members in the order in which they were added; a link is added only if it is
  not a member.
\<close>

fun scan_rows :: "tr list \<Rightarrow> string list \<Rightarrow> nat \<Rightarrow> py_error + (string list \<times> nat)" where
  "scan_rows [] product_links_found new_links_on_page =
     Inr (product_links_found, new_links_on_page)"
| "scan_rows (row # rows) product_links_found new_links_on_page =
     (case row_link row of
        Inl e \<Rightarrow> Inl e
      | Inr None \<Rightarrow> scan_rows rows product_links_found new_links_on_page
      | Inr (Some link) \<Rightarrow>
          if link \<notin> set product_links_found then
            scan_rows rows (product_links_found @ [link]) (new_links_on_page + 1)
          else scan_rows rows product_links_found new_links_on_page)"

text \<open>\<^verbatim>\<open>MAX_PAGES and current_page >= MAX_PAGES\<close>, for \<^verbatim>\<open>None\<close> or a number.\<close>

definition page_limit_reached :: "nat option \<Rightarrow> nat \<Rightarrow> bool" where
  "page_limit_reached max_pages current_page =
     (case max_pages of None \<Rightarrow> False | Some m \<Rightarrow> m \<noteq> 0 \<and> m \<le> current_page)"

text \<open>
  The \<^verbatim>\<open>while True\<close> loop of \<^verbatim>\<open>scrape_labels\<close>. Without a page limit it need not end,
  so its result is optional: \<open>None\<close> is a walk that goes on for ever.
\<close>

partial_function (option) walk ::
  "server \<Rightarrow> string \<Rightarrow> nat option \<Rightarrow> nat \<Rightarrow> string list \<Rightarrow> world
     \<Rightarrow> ((py_error + string list) \<times> world) option" where
  "walk srv p_auth max_pages current_page product_links_found w =
     (case http srv (POST SEARCH_URL p_auth current_page) w of
        (RequestError, w1) \<Rightarrow> Some (Inr product_links_found, w1)
      | (Response r, w1) \<Rightarrow>
          if raise_for_status (status_code r) then Some (Inr product_links_found, w1)
          else (case results_table (page r) of
                  None \<Rightarrow> Some (Inr product_links_found, w1)
                | Some rows \<Rightarrow>
                    if length rows \<le> 1 then Some (Inr product_links_found, w1)
                    else (case scan_rows (tl rows) product_links_found 0 of
                            Inl e \<Rightarrow> Some (Inl e, w1)
                          | Inr (found, new_links_on_page) \<Rightarrow>
                              if new_links_on_page = 0 \<and> current_page > 1 then
                                Some (Inr found, w1)
                              else if page_limit_reached max_pages current_page then
                                Some (Inr found, w1)
                              else walk srv p_auth max_pages (current_page + 1) found w1)))"

text \<open>
  Lines 157 to 165 of \<^verbatim>\<open>scrape_labels\<close>: the DownloadTarget of a non-empty \<^verbatim>\<open>href\<close>.
\<close>

definition resolve_target :: "string \<Rightarrow> url \<times> string" where
  "resolve_target href =
     (let pdf_url = (if \<not> starts_with ''http'' href then urljoin BASE_URL href else href);
          parsed_url = urlparse pdf_url [];
          pdf_filename = basename (path parsed_url)
      in (pdf_url, pdf_filename))"

text \<open>
  The body of the loop over the products. The handler of the loop takes a
  RequestException only; \<^verbatim>\<open>elabel_link_tag['href']\<close> is a KeyError for an anchor without
  that attribute, and an empty \<^verbatim>\<open>href\<close> is skipped.
\<close>

definition process_product :: "server \<Rightarrow> url \<Rightarrow> world \<Rightarrow> (py_error + unit) \<times> world" where
  "process_product srv product_url w =
     (case http srv (GET product_url) w of
        (RequestError, w1) \<Rightarrow> (Inr (), w1)
      | (Response r, w1) \<Rightarrow>
          if raise_for_status (status_code r) then (Inr (), w1)
          else (case elabel_link (page r) of
                  None \<Rightarrow> (Inr (), w1)
                | Some (Anchor None) \<Rightarrow> (Inl KeyError, w1)
                | Some (Anchor (Some href)) \<Rightarrow>
                    if href = [] then (Inr (), w1)
                    else (case resolve_target href of
                            (pdf_url, pdf_filename) \<Rightarrow>
                              if \<not> path_exists w1 pdf_filename then
                                (case scraper_download_pdf srv pdf_url pdf_filename w1 of
                                   (Inl e, w2) \<Rightarrow> (Inl e, w2)
                                 | (Inr ok, w2) \<Rightarrow> (Inr (), w2))
                              else (Inr (), w1))))"

fun process_products :: "server \<Rightarrow> url list \<Rightarrow> world \<Rightarrow> (py_error + unit) \<times> world" where
  "process_products srv [] w = (Inr (), w)"
| "process_products srv (product_url # product_urls) w =
     (case process_product srv product_url w of
        (Inl e, w1) \<Rightarrow> (Inl e, w1)
      | (Inr u, w1) \<Rightarrow> process_products srv product_urls w1)"

text \<open>
  \<^verbatim>\<open>scrape_labels\<close>. The order in which \<^verbatim>\<open>list(product_links_found)\<close> lists a set is not
  fixed by the language, so it is a parameter: \<open>order\<close> rearranges the links found.
  The function returns nothing; an exception that leaves it is the \<open>Inl\<close> result.
\<close>

definition scrape_labels ::
  "server \<Rightarrow> (string list \<Rightarrow> string list) \<Rightarrow> world \<Rightarrow> ((py_error + unit) \<times> world) option" where
  "scrape_labels srv order w =
     (case get_session_params srv SEARCH_URL w of
        (Inl e, w1) \<Rightarrow> Some (Inl e, w1)
      | (Inr None, w1) \<Rightarrow> Some (Inr (), w1)
      | (Inr (Some p_auth), w1) \<Rightarrow>
          if p_auth = [] then Some (Inr (), w1)
          else (case walk srv p_auth MAX_PAGES 1 [] w1 of
                  None \<Rightarrow> None
                | Some (Inl e, w2) \<Rightarrow> Some (Inl e, w2)
                | Some (Inr product_links_found, w2) \<Rightarrow>
                    Some (process_products srv (order product_links_found) w2)))"

section \<open>Notions used to state the properties of the CSV variant\<close>



subsection \<open>Example inputs\<close>

definition csv_line :: "string \<Rightarrow> string \<Rightarrow> string \<Rightarrow> csv_row" where
  "csv_line n a nm = map_of [(''No'', Some n), (''Actives'', Some a), (''Name'', Some nm)]"



section \<open>Notions used to state the properties of the scraper\<close>

text \<open>The links that the rows of a page carry, in the order of the rows.\<close>

definition data_links :: "tr list \<Rightarrow> string list" where
  "data_links rows =
     List.map_filter (\<lambda>row. case row_link row of Inr (Some link) \<Rightarrow> Some link | _ \<Rightarrow> None) rows"

text \<open>
  The links of the data rows of a search-result page that are not among the links found
  so far. An answer with an error status or without a results table has none.
\<close>

definition new_links :: "http_result \<Rightarrow> string list \<Rightarrow> string list" where
  "new_links res product_links_found =
     (case res of
        RequestError \<Rightarrow> []
      | Response r \<Rightarrow>
          if raise_for_status (status_code r) then []
          else (case results_table (page r) of
                  None \<Rightarrow> []
                | Some rows \<Rightarrow>
                    filter (\<lambda>l. l \<notin> set product_links_found) (data_links (tl rows))))"

text \<open>The requests made between two states of the world.\<close>

definition requests_between :: "world \<Rightarrow> world \<Rightarrow> request list" where
  "requests_between w w' = drop (length (sent w)) (sent w')"

text \<open>
  A request that errors: the call raises a RequestException, or the status is one for which
  \<^verbatim>\<open>raise_for_status\<close> raises one.
\<close>

definition request_fails :: "http_result \<Rightarrow> bool" where
  "request_fails res =
     (case res of RequestError \<Rightarrow> True | Response r \<Rightarrow> raise_for_status (status_code r))"


section \<open>Example servers\<close>

definition no_html :: html where
  "no_html = \<lparr>p_auth_input = None, results_table = None, elabel_link = None\<rparr>"

definition reply :: "nat \<Rightarrow> html \<Rightarrow> response" where
  "reply s h = \<lparr>status_code = s, page = h, content_length = None, chunks = [],
               stream_fault = False\<rparr>"

definition link_row :: "string \<Rightarrow> tr" where
  "link_row l = Tr (Some (Td (Some (Anchor (Some l)))))"

text \<open>A results page: a header row without cells, then one row for each link.\<close>

definition results_page :: "string list \<Rightarrow> response" where
  "results_page ls = reply 200 (no_html\<lparr>results_table := Some (Tr None # map link_row ls)\<rparr>)"

text \<open>
  A portal whose search answers three pages: the first lists a product twice, the second
  repeats a product of the first, the third repeats the last product of the second.
\<close>

definition paging_server :: server where
  "paging_server history rq =
     (case rq of
        GET u \<Rightarrow>
          if u = SEARCH_URL then
            Response (reply 200 (no_html\<lparr>p_auth_input := Some (Input (Some ''tok''))\<rparr>))
          else Response (reply 404 no_html)
      | POST u p_auth n \<Rightarrow>
          if n = 1 then Response (results_page [''/product/1'', ''/product/2'', ''/product/1''])
          else if n = 2 then Response (results_page [''/product/2'', ''/product/3''])
          else Response (results_page [''/product/3'']))"

definition start :: world where
  "start = \<lparr>files = Map.empty, sent = []\<rparr>"

text \<open>The world after the first two pages of a search with the token \<open>tok\<close>.\<close>

definition after_two_pages :: world where
  "after_two_pages = start\<lparr>sent := [POST SEARCH_URL ''tok'' 1, POST SEARCH_URL ''tok'' 2]\<rparr>"

definition three_links :: "string list" where
  "three_links = [''/product/1'', ''/product/2'', ''/product/3'']"

text \<open>A server that answers every request with the same status and no content.\<close>

definition status_server :: "nat \<Rightarrow> server" where
  "status_server s history rq = Response (reply s no_html)"

text \<open>A document sent whole, and one whose transfer breaks after two chunks.\<close>

definition whole_pdf :: response where
  "whole_pdf = (reply 200 no_html)\<lparr>content_length := Some (Some 22),
                                    chunks := [''%PDF-1.4 '', ''label'', '' %%EOF'']\<rparr>"

definition broken_pdf :: response where
  "broken_pdf = (reply 200 no_html)\<lparr>content_length := Some (Some 22),
                                     chunks := [''%PDF-1.4 '', ''lab''], stream_fault := True\<rparr>"

definition breaking_server :: server where
  "breaking_server history rq = Response broken_pdf"




definition one_row :: "csv_row list" where
  "one_row = [csv_line ''31393'' ''glyphosate'' ''Roundup'']"

text \<open>
  A portal with two products. The detail page of the first links its label with a relative
  \<^verbatim>\<open>href\<close>, that of the second with an absolute one. The label of the first is sent with
  a \<^verbatim>\<open>content-length\<close> header that is not a number; the label of the second is sent whole.
\<close>

definition detail_page :: "string \<Rightarrow> response" where
  "detail_page h = reply 200 (no_html\<lparr>elabel_link := Some (Anchor (Some h))\<rparr>)"

definition portal_server :: server where
  "portal_server history rq =
     (case rq of
        GET u \<Rightarrow>
          if u = SEARCH_URL then
            Response (reply 200 (no_html\<lparr>p_auth_input := Some (Input (Some ''tok''))\<rparr>))
          else if u = ''https://portal.apvma.gov.au/product/1'' then
            Response (detail_page ''/docs/A.pdf'')
          else if u = ''https://portal.apvma.gov.au/product/2'' then
            Response (detail_page ''https://portal.apvma.gov.au/docs/B.pdf'')
          else if u = ''https://portal.apvma.gov.au/docs/A.pdf'' then
            Response (whole_pdf\<lparr>content_length := Some None\<rparr>)
          else if u = ''https://portal.apvma.gov.au/docs/B.pdf'' then Response whole_pdf
          else Response (reply 404 no_html)
      | POST u p_auth n \<Rightarrow>
          if n = 1 then
            Response (results_page [''https://portal.apvma.gov.au/product/1'',
                                    ''https://portal.apvma.gov.au/product/2''])
          else Response (results_page []))"




section \<open>Properties of the CSV selection\<close>










section \<open>Properties of the search walk\<close>

lemma http_eq: "http srv rq w = (srv (sent w) rq, w\<lparr>sent := sent w @ [rq]\<rparr>)"
  by (simp add: http_def)


lemma requests_between_append: "requests_between w (w\<lparr>sent := sent w @ rs\<rparr>) = rs"
  by (simp add: requests_between_def)


lemma data_links_Cons:
  "data_links (row # rows) =
     (case row_link row of Inr (Some link) \<Rightarrow> link # data_links rows | _ \<Rightarrow> data_links rows)"
  by (simp add: data_links_def map_filter_simps split: sum.splits option.splits)



lemma scan_rows_nothing_new:
  "set (data_links rows) \<subseteq> set found \<Longrightarrow>
   scan_rows rows found k = Inr (found', k') \<Longrightarrow> found' = found \<and> k' = k"
proof (induction rows arbitrary: k)
  case Nil
  then show ?case by simp
next
  case (Cons row rows)
  then show ?case
    by (auto simp: data_links_Cons split: sum.splits option.splits if_splits)
qed

lemma row_link_error: "row_link row = Inl e \<Longrightarrow> e = KeyError"
  by (cases row rule: row_link.cases) auto

lemma scan_rows_error: "scan_rows rows found k = Inl e \<Longrightarrow> e = KeyError"
proof (induction rows arbitrary: found k)
  case Nil
  then show ?case by simp
next
  case (Cons row rows)
  then show ?case
    by (auto split: sum.splits option.splits if_splits dest: row_link_error)
qed

text \<open>
  With a page limit the walk always ends: the distance to the limit shrinks with every
  page.
\<close>

lemma walk_total:
  "0 < m \<Longrightarrow> \<exists>y. walk srv p_auth (Some m) n found w = Some y"
proof (induction "m - n" arbitrary: n found w)
  case 0
  then have "page_limit_reached (Some m) n" by (simp add: page_limit_reached_def)
  then show ?case
    by (subst walk.simps) (auto simp: http_eq split: http_result.splits option.splits sum.splits)
next
  case (Suc d)
  have IH: "\<And>found w. \<exists>y. walk srv p_auth (Some m) (n + 1) found w = Some y"
    using Suc.hyps(1)[of "n + 1"] Suc.hyps(2) Suc.prems by simp
  show ?case
    apply (subst walk.simps)
    using IH by (auto simp: http_eq split: http_result.splits option.splits sum.splits)
qed



text \<open>
  C4. In a search walk that is at page \<open>n > 1\<close> and whose page \<open>n\<close> has no link that is
  not already among the links found, the walk ends at page \<open>n\<close>: it returns (the links
  found, unchanged, or the KeyError of a row whose anchor has no \<^verbatim>\<open>href\<close>), the only
  request it makes is the one for page \<open>n\<close>, and no request for page \<open>n + 1\<close> is made.
  This holds with any page limit and with none.
\<close>

theorem walk_stops_without_new_links:
  assumes "1 < n"
    and "new_links (srv (sent w) (POST SEARCH_URL p_auth n)) found = []"
  shows "\<exists>res w'. walk srv p_auth max_pages n found w = Some (res, w')
           \<and> (res = Inr found \<or> res = Inl KeyError)
           \<and> requests_between w w' = [POST SEARCH_URL p_auth n]
           \<and> POST SEARCH_URL p_auth (n + 1) \<notin> set (requests_between w w')"
proof -
  have "\<exists>res. walk srv p_auth max_pages n found w
             = Some (res, w\<lparr>sent := sent w @ [POST SEARCH_URL p_auth n]\<rparr>)
           \<and> (res = Inr found \<or> res = Inl KeyError)"
  proof (cases "srv (sent w) (POST SEARCH_URL p_auth n)")
    case RequestError
    then show ?thesis by (subst walk.simps) (simp add: http_eq)
  next
    case (Response r)
    show ?thesis
    proof (cases "raise_for_status (status_code r) \<or> results_table (page r) = None")
      case True
      with Response show ?thesis by (subst walk.simps) (auto simp: http_eq)
    next
      case False
      then obtain rows where rows: "results_table (page r) = Some rows" by auto
      with False Response assms(2) have sub: "set (data_links (tl rows)) \<subseteq> set found"
        by (auto simp: new_links_def filter_empty_conv)
      show ?thesis
      proof (cases "scan_rows (tl rows) found 0")
        case (Inl e)
        have "e = KeyError" using Inl scan_rows_error by blast
        with Inl rows False Response show ?thesis
          by (subst walk.simps) (simp add: http_eq)
      next
        case (Inr p)
        obtain found' k where p: "p = (found', k)" by (cases p)
        from scan_rows_nothing_new[OF sub Inr[unfolded p]]
        have "found' = found" "k = 0" by auto
        with Inr p rows False Response assms(1) show ?thesis
          by (subst walk.simps) (simp add: http_eq)
      qed
    qed
  qed
  then show ?thesis
    by (auto simp: requests_between_def)
qed

text \<open>
  The theorem at the third page of the example portal, which repeats a link of the second.
\<close>

theorem walk_stops_without_new_links_witness:
  "(1::nat) < 3
   \<and> new_links (paging_server (sent after_two_pages) (POST SEARCH_URL ''tok'' 3)) three_links = []
   \<and> (\<exists>res w'. walk paging_server ''tok'' None 3 three_links after_two_pages = Some (res, w')
          \<and> (res = Inr three_links \<or> res = Inl KeyError)
          \<and> requests_between after_two_pages w' = [POST SEARCH_URL ''tok'' 3]
          \<and> POST SEARCH_URL ''tok'' (3 + 1) \<notin> set (requests_between after_two_pages w'))"
proof -
  have h1: "(1::nat) < 3" by simp
  have h2: "new_links (paging_server (sent after_two_pages) (POST SEARCH_URL ''tok'' 3))
              three_links = []"
    by (simp add: new_links_def paging_server_def results_page_def reply_def no_html_def
        link_row_def raise_for_status_def data_links_def map_filter_simps three_links_def)
  from walk_stops_without_new_links
         [where n = 3 and srv = paging_server and w = after_two_pages and p_auth = "''tok''"
            and found = three_links and max_pages = None, OF h1 h2] h1 h2
  show ?thesis by simp
qed



section \<open>Properties of the downloads\<close>





lemma resolve_target_examples:
  "resolve_target ''/docs/A.pdf'' = (''https://portal.apvma.gov.au/docs/A.pdf'', ''A.pdf'')"
  "resolve_target ''https://portal.apvma.gov.au/docs/B.pdf''
     = (''https://portal.apvma.gov.au/docs/B.pdf'', ''B.pdf'')"
  by code_simp+





section \<open>Outcomes of a download and the summary of a run\<close>

text \<open>
  C2 (as amended). A download that receives status 404 while the file is absent returns
  \<open>False\<close>, the value that a failed download returns as well; no exception leaves the
  function, the download directory is unchanged, and the download loop of the CSV variant
  adds one to its single counter of failed or not-found downloads. In the portal variant
  the 404 is the HTTPError of \<^verbatim>\<open>raise_for_status\<close>, handled in the same way.
\<close>

theorem not_found_returns_false:
  assumes "srv (sent w) (GET pdf_url) = Response r"
    and "status_code r = 404"
    and "\<not> path_exists w filename"
  shows "csv_download_pdf srv pdf_url filename w = (False, w\<lparr>sent := sent w @ [GET pdf_url]\<rparr>)
       \<and> scraper_download_pdf srv pdf_url filename w
           = (Inr False, w\<lparr>sent := sent w @ [GET pdf_url]\<rparr>)
       \<and> files (snd (csv_download_pdf srv pdf_url filename w)) = files w
       \<and> files (snd (scraper_download_pdf srv pdf_url filename w)) = files w
       \<and> (csv_url p = pdf_url \<and> csv_filename p = filename
            \<longrightarrow> download_all srv (p # ps) s f w
                = download_all srv ps s (f + 1) (w\<lparr>sent := sent w @ [GET pdf_url]\<rparr>))"
proof -
  have a: "csv_download_pdf srv pdf_url filename w = (False, w\<lparr>sent := sent w @ [GET pdf_url]\<rparr>)"
    using assms by (simp add: csv_download_pdf_def http_eq)
  have b: "scraper_download_pdf srv pdf_url filename w
             = (Inr False, w\<lparr>sent := sent w @ [GET pdf_url]\<rparr>)"
    using assms(1,2) by (simp add: scraper_download_pdf_def http_eq raise_for_status_def)
  from a b show ?thesis by simp
qed

text \<open>The theorem at a server that answers 404 to everything.\<close>

theorem not_found_returns_false_witness:
  "status_server 404 (sent start) (GET ''https://elabels.apvma.gov.au/31393ELBL.pdf'')
     = Response (reply 404 no_html)
   \<and> status_code (reply 404 no_html) = 404
   \<and> \<not> path_exists start ''31393ELBL.pdf''
   \<and> csv_download_pdf (status_server 404) ''https://elabels.apvma.gov.au/31393ELBL.pdf''
        ''31393ELBL.pdf'' start
       = (False, start\<lparr>sent := [GET ''https://elabels.apvma.gov.au/31393ELBL.pdf'']\<rparr>)
   \<and> scraper_download_pdf (status_server 404) ''https://elabels.apvma.gov.au/31393ELBL.pdf''
        ''31393ELBL.pdf'' start
       = (Inr False, start\<lparr>sent := [GET ''https://elabels.apvma.gov.au/31393ELBL.pdf'']\<rparr>)"
proof -
  have h1: "status_server 404 (sent start) (GET ''https://elabels.apvma.gov.au/31393ELBL.pdf'')
     = Response (reply 404 no_html)" by (simp add: status_server_def)
  have h2: "status_code (reply 404 no_html) = 404" by (simp add: reply_def)
  have h3: "\<not> path_exists start ''31393ELBL.pdf''"
    by (simp add: path_exists_def names_directory_def start_def)
  have s: "sent start = []" by (simp add: start_def)
  from not_found_returns_false
         [where srv = "status_server 404" and w = start and r = "reply 404 no_html"
            and pdf_url = "''https://elabels.apvma.gov.au/31393ELBL.pdf''"
            and filename = "''31393ELBL.pdf''", OF h1 h2 h3] h1 h2 h3 s
  show ?thesis by simp
qed

text \<open>
  C2 as it is written fails: the outcome of a 404 is the outcome of a failure, and the
  summary of a run in which the one download meets a 404 is the summary of a run in which
  it meets a server error.
\<close>

theorem not_found_is_not_told_apart_counterexample:
  "fst (csv_download_pdf (status_server 404) ''https://elabels.apvma.gov.au/31393ELBL.pdf''
         ''31393ELBL.pdf'' start) = False
   \<and> fst (csv_download_pdf (status_server 500) ''https://elabels.apvma.gov.au/31393ELBL.pdf''
         ''31393ELBL.pdf'' start) = False
   \<and> fst (process_csv (status_server 404) one_row start)
       = Inr \<lparr>found_unique = 1, successfully_downloaded = 0, failed_not_found = 1\<rparr>
   \<and> fst (process_csv (status_server 500) one_row start)
       = Inr \<lparr>found_unique = 1, successfully_downloaded = 0, failed_not_found = 1\<rparr>"
  by (simp add: process_csv_def one_row_def csv_line_def get_strip_def get_name_def
      strip_def py_isspace_def csv_url_def csv_filename_def CSV_BASE_URL_def
      csv_download_pdf_def path_exists_def names_directory_def http_def status_server_def
      reply_def start_def raise_for_status_def)

text \<open>
  C3 (as amended). A download whose transfer breaks after a 2xx status, the file being
  absent before and its name being a plain name without a slash, leaves under the final
  name of the target a file that holds exactly the
  chunks received before the fault, and returns \<open>False\<close>. The file is written under its
  final name from the first chunk on; there is no temporary path and no renaming. A later
  download of the same target finds the file and returns success without a request.
\<close>

theorem broken_transfer_leaves_partial_file:
  assumes "srv (sent w) (GET pdf_url) = Response r"
    and "200 \<le> status_code r" and "status_code r < 300"
    and "stream_fault r"
    and "content_length r \<noteq> Some None"
    and "\<not> path_exists w filename"
    and "CHR ''/'' \<notin> set filename"
  shows "csv_download_pdf srv pdf_url filename w
           = (False, w\<lparr>sent := sent w @ [GET pdf_url],
                        files := (files w)(filename \<mapsto> concat (chunks r))\<rparr>)
       \<and> scraper_download_pdf srv pdf_url filename w
           = (Inr False, w\<lparr>sent := sent w @ [GET pdf_url],
                            files := (files w)(filename \<mapsto> concat (chunks r))\<rparr>)
       \<and> csv_download_pdf srv' pdf_url filename (snd (csv_download_pdf srv pdf_url filename w))
           = (True, snd (csv_download_pdf srv pdf_url filename w))"
proof -
  have st: "status_code r \<noteq> 404" "\<not> raise_for_status (status_code r)"
    using assms(2,3) by (simp_all add: raise_for_status_def)
  have nd: "\<not> names_directory filename"
    using assms(6) by (simp add: path_exists_def)
  have a: "csv_download_pdf srv pdf_url filename w
           = (False, w\<lparr>sent := sent w @ [GET pdf_url],
                        files := (files w)(filename \<mapsto> concat (chunks r))\<rparr>)"
    using assms(1,4,5,6) st
    by (simp add: csv_download_pdf_def http_eq write_stream_def split: option.splits)
  have b: "scraper_download_pdf srv pdf_url filename w
           = (Inr False, w\<lparr>sent := sent w @ [GET pdf_url],
                            files := (files w)(filename \<mapsto> concat (chunks r))\<rparr>)"
    using assms(1,4,5) st nd
    by (simp add: scraper_download_pdf_def http_eq write_stream_def split: option.splits)
  have c: "csv_download_pdf srv' pdf_url filename (snd (csv_download_pdf srv pdf_url filename w))
           = (True, snd (csv_download_pdf srv pdf_url filename w))"
    by (simp add: a) (simp add: csv_download_pdf_def path_exists_def)
  from a b c show ?thesis by simp
qed

text \<open>The theorem at a server whose transfer breaks after two chunks.\<close>

theorem broken_transfer_leaves_partial_file_witness:
  "breaking_server (sent start) (GET ''https://elabels.apvma.gov.au/31393ELBL.pdf'')
     = Response broken_pdf
   \<and> 200 \<le> status_code broken_pdf \<and> status_code broken_pdf < 300 \<and> stream_fault broken_pdf
   \<and> content_length broken_pdf \<noteq> Some None
   \<and> \<not> path_exists start ''31393ELBL.pdf''
   \<and> CHR ''/'' \<notin> set ''31393ELBL.pdf''
   \<and> csv_download_pdf breaking_server ''https://elabels.apvma.gov.au/31393ELBL.pdf''
        ''31393ELBL.pdf'' start
       = (False, start\<lparr>sent := [GET ''https://elabels.apvma.gov.au/31393ELBL.pdf''],
                        files := [''31393ELBL.pdf'' \<mapsto> ''%PDF-1.4 lab'']\<rparr>)"
proof -
  have h1: "breaking_server (sent start) (GET ''https://elabels.apvma.gov.au/31393ELBL.pdf'')
     = Response broken_pdf" by (simp add: breaking_server_def)
  have h2: "200 \<le> status_code broken_pdf" and h3: "status_code broken_pdf < 300"
    and h4: "stream_fault broken_pdf" and h5: "content_length broken_pdf \<noteq> Some None"
    by (simp_all add: broken_pdf_def reply_def)
  have h6: "\<not> path_exists start ''31393ELBL.pdf''"
    by (simp add: path_exists_def names_directory_def start_def)
  have h7: "CHR ''/'' \<notin> set ''31393ELBL.pdf''" by simp
  have s: "sent start = []" "files start = Map.empty" "concat (chunks broken_pdf) = ''%PDF-1.4 lab''"
    by (simp_all add: start_def broken_pdf_def reply_def)
  from broken_transfer_leaves_partial_file
         [where srv = breaking_server and w = start and r = broken_pdf
            and pdf_url = "''https://elabels.apvma.gov.au/31393ELBL.pdf''"
            and filename = "''31393ELBL.pdf''", OF h1 h2 h3 h4 h5 h6 h7] h1 h2 h3 h4 h5 h6 s
  show ?thesis by simp
qed

text \<open>
  C3 as it is written fails: after the broken transfer the download directory holds a
  truncated file under the final name of the target.
\<close>

theorem truncated_file_under_final_name_counterexample:
  "concat (chunks whole_pdf) = ''%PDF-1.4 label %%EOF''
   \<and> fst (csv_download_pdf breaking_server ''https://elabels.apvma.gov.au/31393ELBL.pdf''
            ''31393ELBL.pdf'' start) = False
   \<and> files (snd (csv_download_pdf breaking_server ''https://elabels.apvma.gov.au/31393ELBL.pdf''
                   ''31393ELBL.pdf'' start)) ''31393ELBL.pdf'' = Some ''%PDF-1.4 lab''
   \<and> files (snd (scraper_download_pdf breaking_server ''https://elabels.apvma.gov.au/31393ELBL.pdf''
                   ''31393ELBL.pdf'' start)) ''31393ELBL.pdf'' = Some ''%PDF-1.4 lab''"
  by (simp add: csv_download_pdf_def scraper_download_pdf_def path_exists_def
      names_directory_def http_def breaking_server_def broken_pdf_def whole_pdf_def reply_def
      start_def raise_for_status_def write_stream_def)




section \<open>Properties of the portal pipeline\<close>

lemma get_session_params_world:
  "snd (get_session_params srv u w) = w\<lparr>sent := sent w @ [GET u]\<rparr>"
  by (simp add: get_session_params_def http_eq
      split: http_result.splits option.splits input_tag.splits)

text \<open>With the page limit of the source the whole of \<^verbatim>\<open>scrape_labels\<close> always ends.\<close>

lemma scrape_labels_total: "\<exists>res. scrape_labels srv order w = Some res"
proof (cases "get_session_params srv SEARCH_URL w")
  case (Pair res w1)
  show ?thesis
  proof (cases res)
    case (Inl e)
    with Pair show ?thesis by (simp add: scrape_labels_def)
  next
    case (Inr tok)
    show ?thesis
    proof (cases tok)
      case None
      with Pair Inr show ?thesis by (simp add: scrape_labels_def)
    next
      case (Some p_auth)
      obtain y where y: "walk srv p_auth MAX_PAGES 1 [] w1 = Some y"
        using walk_total[of 2 srv p_auth 1 "[]" w1] by (auto simp: MAX_PAGES_def)
      obtain r w2 where "y = (r, w2)" by (cases y)
      with y Pair Inr Some show ?thesis
        by (cases r) (simp_all add: scrape_labels_def)
    qed
  qed
qed



text \<open>
  The failures of a product that the loop does pass over: a request for the detail page
  that errors, and a detail page without the e-label anchor or with an empty \<^verbatim>\<open>href\<close>.
\<close>

lemma process_product_isolated:
  assumes "request_fails (srv (sent w) (GET product_url))
           \<or> (\<exists>r. srv (sent w) (GET product_url) = Response r
                  \<and> (elabel_link (page r) = None \<or> elabel_link (page r) = Some (Anchor (Some []))))"
  shows "process_products srv (product_url # product_urls) w
           = process_products srv product_urls (w\<lparr>sent := sent w @ [GET product_url]\<rparr>)"
proof -
  have "process_product srv product_url w = (Inr (), w\<lparr>sent := sent w @ [GET product_url]\<rparr>)"
    using assms
    by (auto simp: request_fails_def process_product_def http_eq split: http_result.splits)
  then show ?thesis by simp
qed

text \<open>A download that ends in a RequestException is passed over as well.\<close>

lemma scraper_download_request_failure:
  "request_fails (srv (sent w) (GET pdf_url)) \<Longrightarrow>
   scraper_download_pdf srv pdf_url filename w = (Inr False, w\<lparr>sent := sent w @ [GET pdf_url]\<rparr>)"
  by (auto simp: request_fails_def scraper_download_pdf_def http_eq split: http_result.splits)

text \<open>
  C9, the code at the failing input. The portal lists two products. The label of the first
  is answered with a \<^verbatim>\<open>content-length\<close> header that is not a number: \<^verbatim>\<open>int()\<close> raises a
  ValueError, which neither \<^verbatim>\<open>download_pdf\<close> of scraper.py nor the loop handles, and the
  run ends there. The detail page of the second product is never requested and its label
  is not downloaded. \<^verbatim>\<open>download_pdf\<close> of csv\_scraper.py returns \<open>False\<close> on the same
  answer.
\<close>

theorem unhandled_exception_ends_the_loop:
  "map_option (\<lambda>(res, w). (res, sent w, files w ''B.pdf''))
     (scrape_labels portal_server (\<lambda>ls. ls) start)
     = Some (Inl ValueError,
             [GET SEARCH_URL, POST SEARCH_URL ''tok'' 1, POST SEARCH_URL ''tok'' 2,
              GET ''https://portal.apvma.gov.au/product/1'',
              GET ''https://portal.apvma.gov.au/docs/A.pdf''],
             None)
   \<and> fst (csv_download_pdf portal_server ''https://portal.apvma.gov.au/docs/A.pdf'' ''A.pdf'' start)
       = False"
  by (simp add: scrape_labels_def get_session_params_def walk.simps process_product_def
      scraper_download_pdf_def csv_download_pdf_def resolve_target_examples
      http_def portal_server_def detail_page_def results_page_def whole_pdf_def reply_def
      no_html_def link_row_def start_def raise_for_status_def page_limit_reached_def
      MAX_PAGES_def path_exists_def names_directory_def SEARCH_URL_def)

text \<open>
  C7, the code at the failing input. A relative \<^verbatim>\<open>href\<close> that begins with the letters
  \<^verbatim>\<open>http\<close> has no scheme, yet the test \<^verbatim>\<open>startswith('http')\<close> takes it for absolute: it
  is kept as it is and not joined to the base URL.
\<close>

theorem relative_href_not_joined:
  "scheme (urlparse ''httpdocs/label.pdf'' []) = []
   \<and> starts_with ''http'' ''httpdocs/label.pdf''
   \<and> resolve_target ''httpdocs/label.pdf'' = (''httpdocs/label.pdf'', ''label.pdf'')"
  by code_simp

text \<open>Joined to the base URL, as a relative reference is to be, it would be this URL.\<close>

lemma relative_href_joined:
  "urljoin BASE_URL ''httpdocs/label.pdf'' = ''https://portal.apvma.gov.au/httpdocs/label.pdf''"
  by code_simp

text \<open>
  What does hold of the target: the file name is the base name of the path of the document
  URL and so has no slash, an \<^verbatim>\<open>href\<close> that does not begin with \<^verbatim>\<open>http\<close> is joined to
  the base URL, and the two examples of the specification come out as stated.
\<close>

lemma basename_no_slash: "CHR ''/'' \<notin> set (basename p)"
proof -
  have "\<And>xs. CHR ''/'' \<notin> set (takeWhile (\<lambda>c. c \<noteq> CHR ''/'') xs)"
    by (auto dest: set_takeWhileD)
  then show ?thesis by (simp add: basename_def)
qed

lemma basename_last_segment: "CHR ''/'' \<notin> set seg \<Longrightarrow> basename (dir @ ''/'' @ seg) = seg"
  by (simp add: basename_def takeWhile_append)

lemma resolve_target_shape:
  "fst (resolve_target href) = (if starts_with ''http'' href then href else urljoin BASE_URL href)
   \<and> snd (resolve_target href) = basename (path (urlparse (fst (resolve_target href)) []))
   \<and> CHR ''/'' \<notin> set (snd (resolve_target href))"
  by (simp add: resolve_target_def Let_def basename_no_slash)

lemma filename_examples:
  "urljoin ''https://host/'' ''/files/ABC123.pdf'' = ''https://host/files/ABC123.pdf''"
  "basename (path (urlparse ''https://host/files/ABC123.pdf'' [])) = ''ABC123.pdf''"
  "resolve_target ''/files/ABC123.pdf''
     = (''https://portal.apvma.gov.au/files/ABC123.pdf'', ''ABC123.pdf'')"
  by code_simp+

end
